theory Spec2Isabelle
  imports Complex_Main "HOL-Library.Word"
begin

section \<open>JavaScript values\<close>

text \<open>
  The values that reach the listener arrive as deserialised protocol messages, so they are
  JSON-shaped: undefined, null, booleans, numbers, strings, arrays and plain objects. A
  number inside such a value is a 32-bit signed integer here: each of them is a Number,
  and \<open>JSON.stringify\<close> prints each of them in full. A string is the list of its code
  units, each below 256. An object is the list of its own properties, with distinct keys,
  in enumeration order.
\<close>

datatype jsval =
    JUndefined
  | JNull
  | JBool bool
  | JNum "32 word"
  | JStr string
  | JArr "jsval list"
  | JObj "(string \<times> jsval) list"

datatype js_error = TypeError | ReferenceError

text \<open>ToBoolean: what \<open>!val\<close>, \<open>a && b\<close> and \<open>c ? x : y\<close> test.\<close>

fun truthy :: "jsval \<Rightarrow> bool" where
  "truthy JUndefined = False"
| "truthy JNull = False"
| "truthy (JBool b) = b"
| "truthy (JNum n) = (n \<noteq> 0)"
| "truthy (JStr s) = (s \<noteq> [])"
| "truthy (JArr xs) = True"
| "truthy (JObj kvs) = True"

text \<open>\<open>Array.prototype.indexOf\<close> on an array of strings: first position, or -1.\<close>

fun indexOf :: "string list \<Rightarrow> string \<Rightarrow> int" where
  "indexOf [] x = -1"
| "indexOf (y # ys) x =
     (if y = x then 0 else (let i = indexOf ys x in if i = -1 then -1 else i + 1))"

subsection \<open>Comparison of Numbers\<close>

text \<open>
  A Number is NaN, an infinity or a finite value. \<open>a < b\<close> is false when either side is
  NaN, and \<open>a >= b\<close> is the negation of \<open>a < b\<close> except that it, too, is false when
  either side is NaN.
\<close>

datatype jsnum = NaN | NegInf | PosInf | Fin rat

fun js_lt :: "jsnum \<Rightarrow> jsnum \<Rightarrow> bool" where
  "js_lt NaN b = False"
| "js_lt a NaN = False"
| "js_lt (Fin a) (Fin b) = (a < b)"
| "js_lt (Fin a) PosInf = True"
| "js_lt (Fin a) NegInf = False"
| "js_lt NegInf b = (b \<noteq> NegInf)"
| "js_lt PosInf b = False"

definition js_ge :: "jsnum \<Rightarrow> jsnum \<Rightarrow> bool" where
  "js_ge a b = (a \<noteq> NaN \<and> b \<noteq> NaN \<and> \<not> js_lt a b)"

subsection \<open>JSON.stringify\<close>

fun digits :: "nat \<Rightarrow> string" where
  "digits n = (if n < 10 then [char_of (48 + n)] else digits (n div 10) @ [char_of (48 + n mod 10)])"

definition number_text :: "32 word \<Rightarrow> string" where
  "number_text w = (if sint w < 0 then CHR ''-'' # digits (nat (- sint w)) else digits (nat (sint w)))"

definition hex_digit :: "nat \<Rightarrow> char" where
  "hex_digit n = (if n < 10 then char_of (48 + n) else char_of (87 + n))"

text \<open>QuoteJSONString: the two-character escapes, \<open>\u00XX\<close> for the other control
  characters, everything else as it is.\<close>

definition escape_char :: "char \<Rightarrow> string" where
  "escape_char c =
     (if c = CHR 0x22 then [CHR 0x5C, CHR 0x22]
      else if c = CHR 0x5C then [CHR 0x5C, CHR 0x5C]
      else if c = CHR 0x08 then [CHR 0x5C, CHR ''b'']
      else if c = CHR 0x0C then [CHR 0x5C, CHR ''f'']
      else if c = CHR 0x0A then [CHR 0x5C, CHR ''n'']
      else if c = CHR 0x0D then [CHR 0x5C, CHR ''r'']
      else if c = CHR 0x09 then [CHR 0x5C, CHR ''t'']
      else if (of_char c :: nat) < 32
        then [CHR 0x5C, CHR ''u'', CHR ''0'', CHR ''0'',
              hex_digit (of_char c div 16), hex_digit (of_char c mod 16)]
      else [c])"

definition QuoteJSONString :: "string \<Rightarrow> string" where
  "QuoteJSONString s = CHR 0x22 # concat (map escape_char s) @ [CHR 0x22]"

fun join_comma :: "string list \<Rightarrow> string" where
  "join_comma [] = []"
| "join_comma [x] = x"
| "join_comma (x # y # ys) = x @ CHR '','' # join_comma (y # ys)"

text \<open>
  The text \<open>JSON.stringify\<close> gives for a value. An undefined array element is written
  \<open>null\<close> and a property whose value is undefined is left out; this is what the
  \<open>JUndefined\<close> equation and the filter of the object case say. (At top level
  \<open>JSON.stringify(undefined)\<close> is \<open>undefined\<close>; \<open>tryToStringify\<close> below never
  passes it an undefined value.)
\<close>

fun JSON_stringify :: "jsval \<Rightarrow> string" where
  "JSON_stringify JUndefined = ''null''"
| "JSON_stringify JNull = ''null''"
| "JSON_stringify (JBool b) = (if b then ''true'' else ''false'')"
| "JSON_stringify (JNum n) = number_text n"
| "JSON_stringify (JStr s) = QuoteJSONString s"
| "JSON_stringify (JArr xs) = ''['' @ join_comma (map JSON_stringify xs) @ '']''"
| "JSON_stringify (JObj kvs) =
     ''{'' @ join_comma (map (\<lambda>kv. QuoteJSONString (fst kv) @ CHR '':'' # JSON_stringify (snd kv))
                          (filter (\<lambda>kv. snd kv \<noteq> JUndefined) kvs)) @ ''}''"

section \<open>The data of the listener\<close>

text \<open>
  \<open>params\<close> of a \<open>Network.requestWillBeSent\<close> event, with the fields the listener
  reads (the field \<open>method\<close> is written \<open>method'\<close>). \<open>type\<close> and \<open>hasPostData\<close>
  are optional in the protocol (\<open>None\<close> is an absent field); \<open>postData\<close> is
  \<open>JUndefined\<close> when absent and holds whatever the follow-up command delivered once the
  listener has assigned it. The timestamp is only copied.
\<close>

record request =
  url :: string
  method' :: string
  hasPostData :: "bool option"
  postData :: jsval

record request_params =
  requestId :: string
  timestamp :: rat
  type :: "string option"
  request :: request

text \<open>\<open>params\<close> of a \<open>Network.responseReceived\<close> event.\<close>

record response =
  status :: int

record response_params =
  rs_requestId :: string
  rs_type :: "string option"
  response :: response

text \<open>The result object of \<open>Network.getResponseBody\<close>.\<close>

record body_result =
  body :: jsval
  base64Encoded :: bool

text \<open>The object \<open>createEvent\<close> builds and \<open>collectNetworkEvent\<close> posts.\<close>

record event =
  ev_requestId :: string
  ev_timestamp :: rat
  ev_type :: "string option"
  ev_url :: string
  ev_method :: string
  ev_status :: int
  requestBody :: string
  responseBody :: string
  responseBodyBase64Encoded :: bool

text \<open>The fields of the \<open>XMLHttpRequest\<close> that its listener can read.\<close>

record xhr =
  readyState :: nat
  xhr_status :: int

text \<open>
  What a debugger event carries: the protocol fixes the shape of \<open>params\<close> by the
  message name, so the two messages the listener handles come with their own parameters
  and any other message with its name and its \<open>params.type\<close>.
\<close>

datatype network_message =
    RequestWillBeSent request_params
  | ResponseReceived response_params
  | OtherMessage string "string option"

fun params_type :: "network_message \<Rightarrow> string option" where
  "params_type (RequestWillBeSent p) = type p"
| "params_type (ResponseReceived p) = rs_type p"
| "params_type (OtherMessage m t) = t"

subsection \<open>chrome.storage.local\<close>

text \<open>
  The storage area serves the calls of the listener in the order they are made: a
  \<open>set\<close> and a \<open>remove\<close> take effect when called.
\<close>

type_synonym storage = "string \<rightharpoonup> request_params"

definition storage_set :: "string \<Rightarrow> request_params \<Rightarrow> storage \<Rightarrow> storage" where
  "storage_set k v m = m(k \<mapsto> v)"

definition storage_get :: "string \<Rightarrow> storage \<Rightarrow> request_params option" where
  "storage_get k m = m k"

text \<open>
  Modelled from the spec: the store's remove operation is the browser's
  \<open>chrome.storage.local.remove\<close>, which the listener calls and does not define; as
  the spec has it, it deletes the entry and is a no-op if the entry is absent.
\<close>

definition storage_remove :: "string \<Rightarrow> storage \<Rightarrow> storage" where
  "storage_remove k m = m(k := None)"

subsection \<open>Calls in flight and the state\<close>

text \<open>
  Every call of the listener into the browser that takes a callback is asynchronous: the
  callback runs later, and other events may be handled in between. A call in flight is
  kept with what its callback has captured:
  \<^item> \<open>Network.getRequestPostData\<close>, with the \<open>params\<close> of the request event;
  \<^item> \<open>chrome.storage.local.get\<close>, with the \<open>params\<close> of the response event and the
    entry the area held for the identifier when the call was made;
  \<^item> \<open>Network.getResponseBody\<close>, with the \<open>params\<close> of the response event and the
    entry the storage callback was given;
  \<^item> the request to the collector, with the event posted and the identifier that the
    completion callback removes.
\<close>

datatype task =
    PostDataRequested request_params
  | StorageRequested response_params "request_params option"
  | ResponseBodyRequested response_params "request_params option"
  | EventPosted event string

text \<open>
  The state: the storage area, the debugger commands issued (method and request id), the
  events handed to \<open>xhr.send\<close>, the \<open>console.log\<close> entries of the completion
  callback, the exceptions thrown inside callbacks (they reach no caller; the browser
  reports them), and the calls in flight.
\<close>

record state =
  storage :: storage
  commands :: "(string \<times> string) list"
  sent :: "event list"
  logged :: "(event \<times> bool) list"
  uncaught :: "js_error list"
  pending :: "task list"

section \<open>The listener\<close>

definition resources :: "string list" where
  "resources = [''XHR'', ''Fetch'']"

text \<open>\<open>type && resources.indexOf(type) > -1\<close>: a falsy \<open>type\<close> is itself the result.\<close>

definition importantResourceType :: "string option \<Rightarrow> jsval" where
  "importantResourceType t =
     (case t of
        None \<Rightarrow> JUndefined
      | Some s \<Rightarrow> if truthy (JStr s) then JBool (indexOf resources s > -1) else JStr s)"

definition tryToStringify :: "jsval \<Rightarrow> string" where
  "tryToStringify val =
     (if \<not> truthy val then ''''
      else case val of JStr s \<Rightarrow> s | _ \<Rightarrow> JSON_stringify val)"

text \<open>Reading \<open>requestParams.requestId\<close> of an undefined \<open>requestParams\<close> throws.\<close>

definition createEvent ::
  "body_result option \<Rightarrow> request_params option \<Rightarrow> response_params \<Rightarrow> js_error + event" where
  "createEvent responseBody' requestParams responseParams =
     (case requestParams of
        None \<Rightarrow> Inl TypeError
      | Some rp \<Rightarrow>
          Inr \<lparr> ev_requestId = requestId rp,
                ev_timestamp = timestamp rp,
                ev_type = type rp,
                ev_url = url (request rp),
                ev_method = method' (request rp),
                ev_status = status (response responseParams),
                requestBody = tryToStringify (postData (request rp)),
                responseBody =
                  (case responseBody' of Some r \<Rightarrow> tryToStringify (body r) | None \<Rightarrow> ''''),
                responseBodyBase64Encoded =
                  (case responseBody' of Some r \<Rightarrow> base64Encoded r | None \<Rightarrow> False) \<rparr>)"

subsection \<open>Posting an event\<close>

text \<open>
  The completion callback that \<open>onResponseReceived\<close> passes to \<open>collectNetworkEvent\<close>
  (lines 145 to 148): it logs the flag and removes the entry of \<open>params.requestId\<close>.
\<close>

definition collectNetworkEvent_callback :: "event \<Rightarrow> string \<Rightarrow> bool \<Rightarrow> state \<Rightarrow> state" where
  "collectNetworkEvent_callback ev requestId' isSuccess st =
     st\<lparr>logged := logged st @ [(ev, isSuccess)],
        storage := storage_remove requestId' (storage st)\<rparr>"

text \<open>
  \<open>collectNetworkEvent\<close> registers the listener and sends the event. Its callback
  argument is the one above, kept by what it has captured.
\<close>

definition collectNetworkEvent :: "event \<Rightarrow> string \<Rightarrow> state \<Rightarrow> state" where
  "collectNetworkEvent ev requestId' st =
     st\<lparr>sent := sent st @ [ev], pending := pending st @ [EventPosted ev requestId']\<rparr>"

text \<open>
  The \<open>readystatechange\<close> listener (lines 189 to 193). When the request is done
  (\<open>XMLHttpRequest.DONE\<close> is 4) it calls back with \<open>status >= 200 && status < 400\<close>,
  where \<open>status\<close> is not \<open>xhr.status\<close> but the free identifier of the global scope.
  \<open>global_status\<close> is the Number that the value bound to it converts to in the
  comparison, and \<open>None\<close> when there is no binding: then the evaluation throws a
  ReferenceError and the callback is not called. In a page the identifier is
  \<open>window.status\<close>, a string, which the listener never assigns; the empty string it
  holds from the start converts to 0.
\<close>

definition readystatechange ::
  "event \<Rightarrow> string \<Rightarrow> xhr \<Rightarrow> jsnum option \<Rightarrow> state \<Rightarrow> state" where
  "readystatechange ev requestId' x global_status st =
     (if readyState x = 4 then
        (case global_status of
           None \<Rightarrow> st\<lparr>uncaught := uncaught st @ [ReferenceError]\<rparr>
         | Some n \<Rightarrow>
             collectNetworkEvent_callback ev requestId'
               (js_ge n (Fin 200) \<and> js_lt n (Fin 400)) st)
      else st)"

subsection \<open>Requests\<close>

text \<open>
  When the post body was left out of the event, \<open>onRequestWillBeSent\<close> only issues
  \<open>Network.getRequestPostData\<close>; the entry is written by the callback of that command.
\<close>

definition onRequestWillBeSent :: "nat \<Rightarrow> request_params \<Rightarrow> state \<Rightarrow> state" where
  "onRequestWillBeSent tabId params st =
     (if hasPostData (request params) = Some True \<and> \<not> truthy (postData (request params)) then
        st\<lparr>commands := commands st @ [(''Network.getRequestPostData'', requestId params)],
           pending := pending st @ [PostDataRequested params]\<rparr>
      else st\<lparr>storage := storage_set (requestId params) params (storage st)\<rparr>)"

text \<open>The callback of \<open>Network.getRequestPostData\<close> (lines 118 to 121).\<close>

definition getRequestPostData_callback :: "request_params \<Rightarrow> jsval \<Rightarrow> state \<Rightarrow> state" where
  "getRequestPostData_callback params data st =
     (let params' = params\<lparr>request := (request params)\<lparr>postData := data\<rparr>\<rparr>
      in st\<lparr>storage := storage_set (requestId params) params' (storage st)\<rparr>)"

subsection \<open>Responses\<close>

definition onResponseReceived :: "nat \<Rightarrow> response_params \<Rightarrow> state \<Rightarrow> state" where
  "onResponseReceived tabId params st =
     st\<lparr>pending := pending st @
          [StorageRequested params (storage_get (rs_requestId params) (storage st))]\<rparr>"

text \<open>
  The callback of \<open>chrome.storage.local.get\<close> (lines 134 to 151), given
  \<open>storage[params.requestId]\<close>.
\<close>

definition storage_get_callback ::
  "nat \<Rightarrow> response_params \<Rightarrow> request_params option \<Rightarrow> state \<Rightarrow> state" where
  "storage_get_callback tabId params requestParams st =
     st\<lparr>commands := commands st @ [(''Network.getResponseBody'', rs_requestId params)],
        pending := pending st @ [ResponseBodyRequested params requestParams]\<rparr>"

text \<open>
  The callback of \<open>Network.getResponseBody\<close> (lines 139 to 149), given the result of
  the command (\<open>None\<close> when the command fails).
\<close>

definition getResponseBody_callback ::
  "response_params \<Rightarrow> request_params option \<Rightarrow> body_result option \<Rightarrow> state \<Rightarrow> state" where
  "getResponseBody_callback params requestParams response' st =
     (case createEvent response' requestParams params of
        Inl err \<Rightarrow> st\<lparr>uncaught := uncaught st @ [err]\<rparr>
      | Inr ev \<Rightarrow> collectNetworkEvent ev (rs_requestId params) st)"

subsection \<open>Debugger events\<close>

definition onNetworkEvent :: "nat \<Rightarrow> nat \<Rightarrow> network_message \<Rightarrow> state \<Rightarrow> state" where
  "onNetworkEvent tabId debuggeeTabId msg st =
     (if tabId \<noteq> debuggeeTabId then st
      else if \<not> truthy (importantResourceType (params_type msg)) then st
      else case msg of
             RequestWillBeSent params \<Rightarrow> onRequestWillBeSent tabId params st
           | ResponseReceived params \<Rightarrow> onResponseReceived tabId params st
           | OtherMessage m t \<Rightarrow> st)"

section \<open>Runs\<close>

text \<open>
  What can happen next: the debugger reports an event, or a call in flight completes and
  its callback runs with the answer.
  \<^item> \<open>PostDataResult\<close>: the result of \<open>Network.getRequestPostData\<close> (undefined when
    the command fails).
  \<^item> \<open>StorageResult\<close>: the entry \<open>chrome.storage.local.get\<close> answers with. It is
    the entry held when the call was made or the entry held now.
  \<^item> \<open>ResponseBodyResult\<close>: the result of \<open>Network.getResponseBody\<close>.
  \<^item> \<open>ReadyStateChange\<close>: the request to the collector changes its ready state; the
    status it has and the Number the free identifier \<open>status\<close> converts to at that
    moment come with it. The request stays in flight until it is done.
  A step that completes a call not in flight is not a step of the listener: \<open>None\<close>.
\<close>

datatype action =
    DebuggerEvent nat network_message
  | PostDataResult request_params jsval
  | StorageResult response_params "request_params option" "request_params option"
  | ResponseBodyResult response_params "request_params option" "body_result option"
  | ReadyStateChange event string xhr "jsnum option"

definition complete :: "task \<Rightarrow> state \<Rightarrow> state" where
  "complete t st = st\<lparr>pending := remove1 t (pending st)\<rparr>"

fun step :: "nat \<Rightarrow> action \<Rightarrow> state \<Rightarrow> state option" where
  "step tabId (DebuggerEvent debuggeeTabId msg) st = Some (onNetworkEvent tabId debuggeeTabId msg st)"
| "step tabId (PostDataResult params data) st =
     (if PostDataRequested params \<in> set (pending st)
      then Some (getRequestPostData_callback params data (complete (PostDataRequested params) st))
      else None)"
| "step tabId (StorageResult params held answer) st =
     (if StorageRequested params held \<in> set (pending st)
         \<and> (answer = held \<or> answer = storage_get (rs_requestId params) (storage st))
      then Some (storage_get_callback tabId params answer (complete (StorageRequested params held) st))
      else None)"
| "step tabId (ResponseBodyResult params requestParams response') st =
     (if ResponseBodyRequested params requestParams \<in> set (pending st)
      then Some (getResponseBody_callback params requestParams response'
                   (complete (ResponseBodyRequested params requestParams) st))
      else None)"
| "step tabId (ReadyStateChange ev requestId' x global_status) st =
     (if EventPosted ev requestId' \<in> set (pending st)
      then Some (readystatechange ev requestId' x global_status
                   (if readyState x = 4 then complete (EventPosted ev requestId') st else st))
      else None)"

fun run :: "nat \<Rightarrow> action list \<Rightarrow> state \<Rightarrow> state option" where
  "run tabId [] st = Some st"
| "run tabId (a # rest) st =
     (case step tabId a st of None \<Rightarrow> None | Some st' \<Rightarrow> run tabId rest st')"

section \<open>A concrete exchange\<close>

text \<open>
  The exchange used to exercise the theorems: request \<open>7\<close> of type \<open>Fetch\<close> to
  \<open>https://x/api\<close>, answered with status 200 and the body \<open>{"a":1}\<close>; and
  variations of it.
\<close>

definition scenario_request :: request_params where
  "scenario_request =
     \<lparr> requestId = ''7'', timestamp = 100, type = Some ''Fetch'',
       request = \<lparr> url = ''https://x/api'', method' = ''GET'', hasPostData = None,
                   postData = JUndefined \<rparr> \<rparr>"

definition scenario_response :: response_params where
  "scenario_response =
     \<lparr> rs_requestId = ''7'', rs_type = Some ''Fetch'', response = \<lparr> status = 200 \<rparr> \<rparr>"

definition scenario_body :: body_result where
  "scenario_body = \<lparr> body = JObj [(''a'', JNum 1)], base64Encoded = False \<rparr>"

definition scenario_event :: event where
  "scenario_event =
     \<lparr> ev_requestId = ''7'', ev_timestamp = 100, ev_type = Some ''Fetch'',
       ev_url = ''https://x/api'', ev_method = ''GET'', ev_status = 200,
       requestBody = '''',
       responseBody = [CHR ''{'', CHR 0x22, CHR ''a'', CHR 0x22, CHR '':'', CHR ''1'', CHR ''}''],
       responseBodyBase64Encoded = False \<rparr>"

definition empty_state :: state where
  "empty_state =
     \<lparr> storage = Map.empty, commands = [], sent = [], logged = [], uncaught = [], pending = [] \<rparr>"

text \<open>The request is stored; nothing is in flight.\<close>

definition pending_state :: state where
  "pending_state = empty_state\<lparr> storage := [''7'' \<mapsto> scenario_request] \<rparr>"

text \<open>The record of the exchange has been posted; the request to the collector is in flight.\<close>

definition posted_state :: state where
  "posted_state =
     pending_state\<lparr> commands := [(''Network.getResponseBody'', ''7'')],
                    sent := [scenario_event],
                    pending := [EventPosted scenario_event ''7''] \<rparr>"

text \<open>The request to the collector is done, with the given HTTP status.\<close>

definition done_xhr :: "int \<Rightarrow> xhr" where
  "done_xhr s = \<lparr> readyState = 4, xhr_status = s \<rparr>"

text \<open>A POST whose body was left out of the event.\<close>

definition omitted_request :: request_params where
  "omitted_request =
     scenario_request\<lparr> request := (request scenario_request)
        \<lparr> method' := ''POST'', hasPostData := Some True \<rparr> \<rparr>"

text \<open>
  The result object of \<open>Network.getRequestPostData\<close>, and the request as the callback
  of that command stores it.
\<close>

definition object_result :: jsval where
  "object_result = JObj [(''postData'', JStr ''a=1'')]"

definition stored_object_request :: request_params where
  "stored_object_request =
     omitted_request\<lparr> request := (request omitted_request)\<lparr> postData := object_result \<rparr> \<rparr>"

text \<open>The response event of an image.\<close>

definition image_response :: response_params where
  "image_response = scenario_response\<lparr> rs_type := Some ''Image'' \<rparr>"

section \<open>Basic facts\<close>

lemma important_iff:
  "truthy (importantResourceType t) = (t = Some ''XHR'' \<or> t = Some ''Fetch'')"
  by (cases t) (auto simp: importantResourceType_def resources_def)

lemma JSON_stringify_examples:
  "JSON_stringify (JObj [(''a'', JNum 1)]) =
     [CHR ''{'', CHR 0x22, CHR ''a'', CHR 0x22, CHR '':'', CHR ''1'', CHR ''}'']"
  "JSON_stringify (JObj [(''postData'', JStr ''a=1'')]) =
     ''{'' @ [CHR 0x22] @ ''postData'' @ [CHR 0x22] @ '':'' @ [CHR 0x22] @ ''a=1'' @ [CHR 0x22] @ ''}''"
  by code_simp+

text \<open>
  From the stored request, the response event and the answers of the storage area and of
  the debugger lead to the record the spec gives for the scenario.
\<close>

lemma scenario_posted:
  "run 1 [DebuggerEvent 1 (ResponseReceived scenario_response),
          StorageResult scenario_response (Some scenario_request) (Some scenario_request),
          ResponseBodyResult scenario_response (Some scenario_request) (Some scenario_body)]
     pending_state = Some posted_state"
  by (simp add: onNetworkEvent_def important_iff onResponseReceived_def storage_get_def
      storage_get_callback_def complete_def getResponseBody_callback_def createEvent_def
      collectNetworkEvent_def pending_state_def empty_state_def posted_state_def
      scenario_response_def scenario_request_def scenario_body_def scenario_event_def
      tryToStringify_def JSON_stringify_examples del: JSON_stringify.simps)

subsection \<open>A response, by whether the request is stored\<close>

lemma response_exchange:
  assumes "storage st (rs_requestId p) = Some rq"
  shows "\<exists>st'. run tabId [StorageResult p (Some rq) (Some rq), ResponseBodyResult p (Some rq) r]
                 (onResponseReceived tabId p st) = Some st'
              \<and> sent st' = sent st @ [projr (createEvent r (Some rq) p)]
              \<and> storage st' = storage st \<and> logged st' = logged st \<and> uncaught st' = uncaught st
              \<and> EventPosted (projr (createEvent r (Some rq) p)) (rs_requestId p) \<in> set (pending st')"
  using assms
  by (simp add: onResponseReceived_def storage_get_def storage_get_callback_def complete_def
      getResponseBody_callback_def createEvent_def collectNetworkEvent_def)

text \<open>
  A response whose request is not stored leaves no record behind: nothing is sent, nothing
  is logged and the storage area is as it was.
\<close>

lemma orphan_response_no_record:
  assumes "storage st (rs_requestId p) = None"
  shows "\<exists>st'. run tabId [StorageResult p None None, ResponseBodyResult p None r]
                 (onResponseReceived tabId p st) = Some st'
              \<and> sent st' = sent st \<and> logged st' = logged st \<and> storage st' = storage st
              \<and> uncaught st' = uncaught st @ [TypeError]"
  using assms
  by (simp add: onResponseReceived_def storage_get_def storage_get_callback_def complete_def
      getResponseBody_callback_def createEvent_def)

lemma sent_ReadyStateChange:
  assumes "EventPosted ev i \<in> set (pending st)"
  shows "\<exists>st'. step tabId (ReadyStateChange ev i x g) st = Some st' \<and> sent st' = sent st"
  using assms
  by (cases g)
     (simp_all add: readystatechange_def collectNetworkEvent_callback_def complete_def)

subsection \<open>A request\<close>

lemma onRequestWillBeSent_plain:
  assumes "\<not> (hasPostData (request rq) = Some True \<and> \<not> truthy (postData (request rq)))"
  shows "onRequestWillBeSent tabId rq st = st\<lparr>storage := (storage st)(requestId rq \<mapsto> rq)\<rparr>"
  using assms by (auto simp: onRequestWillBeSent_def storage_set_def)

lemma onRequestWillBeSent_omitted:
  assumes "hasPostData (request rq) = Some True" and "\<not> truthy (postData (request rq))"
  shows "onRequestWillBeSent tabId rq st =
           st\<lparr>commands := commands st @ [(''Network.getRequestPostData'', requestId rq)],
              pending := pending st @ [PostDataRequested rq]\<rparr>"
  using assms by (simp add: onRequestWillBeSent_def)

text \<open>
  A request whose post body was left out is stored when the follow-up command has
  delivered, with the delivered value as its post data.
\<close>

lemma post_data_stored:
  assumes "hasPostData (request rq) = Some True" and "\<not> truthy (postData (request rq))"
  shows "\<exists>st'. step tabId (PostDataResult rq data) (onRequestWillBeSent tabId rq st) = Some st'
              \<and> storage st' = (storage st)(requestId rq \<mapsto> rq\<lparr>request := (request rq)\<lparr>postData := data\<rparr>\<rparr>)
              \<and> sent st' = sent st \<and> logged st' = logged st \<and> uncaught st' = uncaught st"
  using assms
  by (simp add: onRequestWillBeSent_omitted getRequestPostData_callback_def complete_def
      storage_set_def)

subsection \<open>Runs\<close>

lemma run_append:
  "run tabId (as @ bs) st = (case run tabId as st of None \<Rightarrow> None | Some st' \<Rightarrow> run tabId bs st')"
  by (induction as arbitrary: st) (simp_all split: option.splits)

section \<open>The claims\<close>

subsection \<open>C1: the pending entry after a dispatch\<close>

text \<open>
  C1, as the listener has it: for every identifier whose completed record has been handed
  to \<open>collectNetworkEvent\<close>, when the request to the collector is done and the
  completion callback runs, the callback removes the stored entry of that identifier
  whatever the success flag it is given. The flag is only logged: after a dispatch
  reported successful and after a failed one alike, the storage area no longer holds the
  identifier.
\<close>

theorem C1_entry_removed_after_every_completed_dispatch:
  assumes "EventPosted ev i \<in> set (pending st)" and "readyState x = 4"
  shows "\<exists>st'. step tabId (ReadyStateChange ev i x (Some n)) st = Some st'
              \<and> storage st' i = None
              \<and> logged st' = logged st @ [(ev, js_ge n (Fin 200) \<and> js_lt n (Fin 400))]"
  using assms
  by (simp add: readystatechange_def collectNetworkEvent_callback_def complete_def
      storage_remove_def)

text \<open>Both flags occur: \<open>False\<close> where \<open>status\<close> converts to 0, \<open>True\<close> where it
  converts to 250.\<close>

theorem C1_entry_removed_after_every_completed_dispatch_witness:
  "EventPosted scenario_event ''7'' \<in> set (pending posted_state)
   \<and> readyState (done_xhr 500) = 4
   \<and> storage posted_state ''7'' = Some scenario_request
   \<and> (\<exists>st'. step 1 (ReadyStateChange scenario_event ''7'' (done_xhr 500) (Some (Fin 0))) posted_state
               = Some st'
            \<and> storage st' ''7'' = None \<and> logged st' = [(scenario_event, False)])
   \<and> (\<exists>st'. step 1 (ReadyStateChange scenario_event ''7'' (done_xhr 500) (Some (Fin 250))) posted_state
               = Some st'
            \<and> storage st' ''7'' = None \<and> logged st' = [(scenario_event, True)])"
proof -
  have a: "EventPosted scenario_event ''7'' \<in> set (pending posted_state)"
    by (simp add: posted_state_def)
  have b: "readyState (done_xhr 500) = 4"
    by (simp add: done_xhr_def)
  have c: "storage posted_state ''7'' = Some scenario_request" "logged posted_state = []"
    by (simp_all add: posted_state_def pending_state_def empty_state_def)
  have d: "(js_ge (Fin 0) (Fin 200) \<and> js_lt (Fin 0) (Fin 400)) = False"
    "(js_ge (Fin 250) (Fin 200) \<and> js_lt (Fin 250) (Fin 400)) = True"
    by (simp_all add: js_ge_def)
  show ?thesis
    using C1_entry_removed_after_every_completed_dispatch [OF a b, of 1 "Fin 0"]
      C1_entry_removed_after_every_completed_dispatch [OF a b, of 1 "Fin 250"] a b c
    by (simp only: d append_Nil simp_thms)
qed

text \<open>
  C1 as stated fails: the collector answers 500, the callback is given \<open>False\<close>, and the
  entry of request \<open>7\<close>, which was stored, is gone all the same.
\<close>

theorem C1_failed_dispatch_removes_entry:
  "storage pending_state ''7'' = Some scenario_request
   \<and> xhr_status (done_xhr 500) = 500
   \<and> map_option (\<lambda>st. map snd (logged st))
        (run 1 [DebuggerEvent 1 (ResponseReceived scenario_response),
                StorageResult scenario_response (Some scenario_request) (Some scenario_request),
                ResponseBodyResult scenario_response (Some scenario_request) (Some scenario_body),
                ReadyStateChange scenario_event ''7'' (done_xhr 500) (Some (Fin 0))]
           pending_state) = Some [False]
   \<and> map_option (\<lambda>st. storage st ''7'')
        (run 1 [DebuggerEvent 1 (ResponseReceived scenario_response),
                StorageResult scenario_response (Some scenario_request) (Some scenario_request),
                ResponseBodyResult scenario_response (Some scenario_request) (Some scenario_body),
                ReadyStateChange scenario_event ''7'' (done_xhr 500) (Some (Fin 0))]
           pending_state) = Some None"
proof -
  have "run 1 ([DebuggerEvent 1 (ResponseReceived scenario_response),
                StorageResult scenario_response (Some scenario_request) (Some scenario_request),
                ResponseBodyResult scenario_response (Some scenario_request) (Some scenario_body)]
               @ [ReadyStateChange scenario_event ''7'' (done_xhr 500) (Some (Fin 0))]) pending_state
        = step 1 (ReadyStateChange scenario_event ''7'' (done_xhr 500) (Some (Fin 0))) posted_state"
    by (simp only: run_append scenario_posted) (simp split: option.splits)
  then show ?thesis
    by (simp add: posted_state_def pending_state_def empty_state_def done_xhr_def
        readystatechange_def collectNetworkEvent_callback_def complete_def storage_remove_def
        js_ge_def)
qed

subsection \<open>C2: a response without a stored request\<close>

text \<open>
  C2 says that a response-received event whose identifier has no stored request produces
  no record and does not raise. At such an event \<open>createEvent\<close> reads
  \<open>requestParams.requestId\<close> of an undefined \<open>requestParams\<close>: a TypeError is thrown
  inside the callback of \<open>Network.getResponseBody\<close>. (No record is produced:
  \<open>orphan_response_no_record\<close>.)
\<close>

theorem C2_orphan_response_raises:
  "storage empty_state (rs_requestId scenario_response) = None
   \<and> createEvent (Some scenario_body) None scenario_response = Inl TypeError
   \<and> map_option uncaught
        (run 1 [DebuggerEvent 1 (ResponseReceived scenario_response),
                StorageResult scenario_response None None,
                ResponseBodyResult scenario_response None (Some scenario_body)] empty_state)
       = Some [TypeError]"
  by (simp add: onNetworkEvent_def important_iff onResponseReceived_def storage_get_def
      storage_get_callback_def complete_def getResponseBody_callback_def createEvent_def
      empty_state_def scenario_response_def)

subsection \<open>C3: one request, one response, one record\<close>

text \<open>
  C3, as the listener has it: for every identifier whose resource type passes the filter,
  a request-sent event whose data is stored before the response is handled (at once when
  no post body has to be fetched, otherwise once \<open>Network.getRequestPostData\<close> has
  delivered), followed by a response-received event for it, produces exactly one record,
  whose identifier, url and method are those of the request event and whose status is
  that of the response event. The completion of the request to the collector adds none.
\<close>

theorem C3_stored_request_then_response_one_record:
  assumes "truthy (importantResourceType (type rq))"
    and "truthy (importantResourceType (rs_type rs))"
    and "rs_requestId rs = requestId rq"
  shows
    "(\<not> (hasPostData (request rq) = Some True \<and> \<not> truthy (postData (request rq))) \<longrightarrow>
        (\<exists>st' ev.
           run tabId [DebuggerEvent tabId (RequestWillBeSent rq),
                      DebuggerEvent tabId (ResponseReceived rs),
                      StorageResult rs (Some rq) (Some rq),
                      ResponseBodyResult rs (Some rq) r] st = Some st'
           \<and> sent st' = sent st @ [ev]
           \<and> ev_requestId ev = requestId rq \<and> ev_url ev = url (request rq)
           \<and> ev_method ev = method' (request rq) \<and> ev_status ev = status (response rs)
           \<and> (\<exists>st''. step tabId (ReadyStateChange ev (requestId rq) x g) st' = Some st''
                    \<and> sent st'' = sent st @ [ev])))
     \<and> (hasPostData (request rq) = Some True \<and> \<not> truthy (postData (request rq)) \<longrightarrow>
        (\<exists>st' ev.
           run tabId [DebuggerEvent tabId (RequestWillBeSent rq),
                      PostDataResult rq data,
                      DebuggerEvent tabId (ResponseReceived rs),
                      StorageResult rs (Some (rq\<lparr>request := (request rq)\<lparr>postData := data\<rparr>\<rparr>))
                                       (Some (rq\<lparr>request := (request rq)\<lparr>postData := data\<rparr>\<rparr>)),
                      ResponseBodyResult rs (Some (rq\<lparr>request := (request rq)\<lparr>postData := data\<rparr>\<rparr>)) r]
               st = Some st'
           \<and> sent st' = sent st @ [ev]
           \<and> ev_requestId ev = requestId rq \<and> ev_url ev = url (request rq)
           \<and> ev_method ev = method' (request rq) \<and> ev_status ev = status (response rs)
           \<and> (\<exists>st''. step tabId (ReadyStateChange ev (requestId rq) x g) st' = Some st''
                    \<and> sent st'' = sent st @ [ev])))"
proof (intro conjI impI)
  assume plain: "\<not> (hasPostData (request rq) = Some True \<and> \<not> truthy (postData (request rq)))"
  let ?st1 = "st\<lparr>storage := (storage st)(requestId rq \<mapsto> rq)\<rparr>"
  let ?ev = "projr (createEvent r (Some rq) rs)"
  have "storage ?st1 (rs_requestId rs) = Some rq"
    by (simp add: assms(3))
  from response_exchange [OF this, of tabId r] obtain st' where
    st': "run tabId [StorageResult rs (Some rq) (Some rq), ResponseBodyResult rs (Some rq) r]
            (onResponseReceived tabId rs ?st1) = Some st'"
    "sent st' = sent st @ [?ev]" "EventPosted ?ev (rs_requestId rs) \<in> set (pending st')"
    by auto
  from sent_ReadyStateChange [OF st'(3), of tabId x g] obtain st'' where
    "step tabId (ReadyStateChange ?ev (requestId rq) x g) st' = Some st''" "sent st'' = sent st'"
    by (auto simp: assms(3))
  with st' plain assms(1,2) show "\<exists>st' ev.
           run tabId [DebuggerEvent tabId (RequestWillBeSent rq),
                      DebuggerEvent tabId (ResponseReceived rs),
                      StorageResult rs (Some rq) (Some rq),
                      ResponseBodyResult rs (Some rq) r] st = Some st'
           \<and> sent st' = sent st @ [ev]
           \<and> ev_requestId ev = requestId rq \<and> ev_url ev = url (request rq)
           \<and> ev_method ev = method' (request rq) \<and> ev_status ev = status (response rs)
           \<and> (\<exists>st''. step tabId (ReadyStateChange ev (requestId rq) x g) st' = Some st''
                    \<and> sent st'' = sent st @ [ev])"
    by (intro exI [of _ st'] exI [of _ ?ev])
       (simp add: onNetworkEvent_def onRequestWillBeSent_plain createEvent_def)
next
  assume omitted: "hasPostData (request rq) = Some True \<and> \<not> truthy (postData (request rq))"
  let ?rq = "rq\<lparr>request := (request rq)\<lparr>postData := data\<rparr>\<rparr>"
  let ?ev = "projr (createEvent r (Some ?rq) rs)"
  from omitted post_data_stored [of rq tabId data st] obtain st1 where
    st1: "step tabId (PostDataResult rq data) (onRequestWillBeSent tabId rq st) = Some st1"
    "storage st1 = (storage st)(requestId rq \<mapsto> ?rq)" "sent st1 = sent st"
    by auto
  have "storage st1 (rs_requestId rs) = Some ?rq"
    by (simp add: st1(2) assms(3))
  from response_exchange [OF this, of tabId r] obtain st' where
    st': "run tabId [StorageResult rs (Some ?rq) (Some ?rq), ResponseBodyResult rs (Some ?rq) r]
            (onResponseReceived tabId rs st1) = Some st'"
    "sent st' = sent st1 @ [?ev]" "EventPosted ?ev (rs_requestId rs) \<in> set (pending st')"
    by auto
  from sent_ReadyStateChange [OF st'(3), of tabId x g] obtain st'' where
    "step tabId (ReadyStateChange ?ev (requestId rq) x g) st' = Some st''" "sent st'' = sent st'"
    by (auto simp: assms(3))
  with st' st1 assms(1,2) show "\<exists>st' ev.
           run tabId [DebuggerEvent tabId (RequestWillBeSent rq),
                      PostDataResult rq data,
                      DebuggerEvent tabId (ResponseReceived rs),
                      StorageResult rs (Some ?rq) (Some ?rq),
                      ResponseBodyResult rs (Some ?rq) r] st = Some st'
           \<and> sent st' = sent st @ [ev]
           \<and> ev_requestId ev = requestId rq \<and> ev_url ev = url (request rq)
           \<and> ev_method ev = method' (request rq) \<and> ev_status ev = status (response rs)
           \<and> (\<exists>st''. step tabId (ReadyStateChange ev (requestId rq) x g) st' = Some st''
                    \<and> sent st'' = sent st @ [ev])"
    by (intro exI [of _ st'] exI [of _ ?ev])
       (simp add: onNetworkEvent_def createEvent_def del: step.simps(2-))
qed

theorem C3_stored_request_then_response_one_record_witness:
  "truthy (importantResourceType (type scenario_request))
   \<and> truthy (importantResourceType (type omitted_request))
   \<and> truthy (importantResourceType (rs_type scenario_response))
   \<and> rs_requestId scenario_response = requestId scenario_request
   \<and> rs_requestId scenario_response = requestId omitted_request
   \<and> \<not> (hasPostData (request scenario_request) = Some True
          \<and> \<not> truthy (postData (request scenario_request)))
   \<and> (hasPostData (request omitted_request) = Some True
          \<and> \<not> truthy (postData (request omitted_request)))
   \<and> (\<exists>st' ev.
         run 1 [DebuggerEvent 1 (RequestWillBeSent scenario_request),
                DebuggerEvent 1 (ResponseReceived scenario_response),
                StorageResult scenario_response (Some scenario_request) (Some scenario_request),
                ResponseBodyResult scenario_response (Some scenario_request) (Some scenario_body)]
           empty_state = Some st'
         \<and> sent st' = [ev] \<and> ev_requestId ev = ''7'' \<and> ev_url ev = ''https://x/api''
         \<and> ev_method ev = ''GET'' \<and> ev_status ev = 200)
   \<and> (\<exists>st' ev.
         run 1 [DebuggerEvent 1 (RequestWillBeSent omitted_request),
                PostDataResult omitted_request object_result,
                DebuggerEvent 1 (ResponseReceived scenario_response),
                StorageResult scenario_response (Some stored_object_request)
                  (Some stored_object_request),
                ResponseBodyResult scenario_response (Some stored_object_request)
                  (Some scenario_body)]
           empty_state = Some st'
         \<and> sent st' = [ev] \<and> ev_requestId ev = ''7'' \<and> ev_url ev = ''https://x/api''
         \<and> ev_method ev = ''POST'' \<and> ev_status ev = 200)"
proof -
  have a: "truthy (importantResourceType (type scenario_request))"
    and a': "truthy (importantResourceType (type omitted_request))"
    and b: "truthy (importantResourceType (rs_type scenario_response))"
    and c: "rs_requestId scenario_response = requestId scenario_request"
    and c': "rs_requestId scenario_response = requestId omitted_request"
    and d: "\<not> (hasPostData (request scenario_request) = Some True
              \<and> \<not> truthy (postData (request scenario_request)))"
    and d': "hasPostData (request omitted_request) = Some True
              \<and> \<not> truthy (postData (request omitted_request))"
    by (simp_all add: important_iff scenario_request_def scenario_response_def omitted_request_def)
  have e: "sent empty_state = []" "requestId scenario_request = ''7''"
    "requestId omitted_request = ''7''"
    "url (request scenario_request) = ''https://x/api''"
    "url (request omitted_request) = ''https://x/api''"
    "method' (request scenario_request) = ''GET''"
    "method' (request omitted_request) = ''POST''"
    "status (response scenario_response) = 200"
    "omitted_request\<lparr>request := (request omitted_request)\<lparr>postData := object_result\<rparr>\<rparr>
       = stored_object_request"
    by (simp_all add: empty_state_def scenario_request_def scenario_response_def
        omitted_request_def stored_object_request_def)
  from C3_stored_request_then_response_one_record [OF a b c, of 1 "Some scenario_body"
      empty_state "done_xhr 200" "Some (Fin 0)" object_result] d
  have 1: "\<exists>st' ev.
         run 1 [DebuggerEvent 1 (RequestWillBeSent scenario_request),
                DebuggerEvent 1 (ResponseReceived scenario_response),
                StorageResult scenario_response (Some scenario_request) (Some scenario_request),
                ResponseBodyResult scenario_response (Some scenario_request) (Some scenario_body)]
           empty_state = Some st'
         \<and> sent st' = [ev] \<and> ev_requestId ev = ''7'' \<and> ev_url ev = ''https://x/api''
         \<and> ev_method ev = ''GET'' \<and> ev_status ev = 200"
    unfolding e by fastforce
  from C3_stored_request_then_response_one_record [OF a' b c', of 1 "Some scenario_body"
      empty_state "done_xhr 200" "Some (Fin 0)" object_result] d'
  have 2: "\<exists>st' ev.
         run 1 [DebuggerEvent 1 (RequestWillBeSent omitted_request),
                PostDataResult omitted_request object_result,
                DebuggerEvent 1 (ResponseReceived scenario_response),
                StorageResult scenario_response (Some stored_object_request)
                  (Some stored_object_request),
                ResponseBodyResult scenario_response (Some stored_object_request)
                  (Some scenario_body)]
           empty_state = Some st'
         \<and> sent st' = [ev] \<and> ev_requestId ev = ''7'' \<and> ev_url ev = ''https://x/api''
         \<and> ev_method ev = ''POST'' \<and> ev_status ev = 200"
    unfolding e by fastforce
  from a a' b c c' d d' 1 2 show ?thesis by blast
qed

text \<open>
  C3 as stated fails where the entry is written late: the post body of the request was
  left out, and the response event is handled before \<open>Network.getRequestPostData\<close>
  has delivered. The storage area holds no entry then, \<open>createEvent\<close> throws, and the
  exchange ends with no record.
\<close>

theorem C3_response_before_post_data_stored:
  "truthy (importantResourceType (type omitted_request))
   \<and> truthy (importantResourceType (rs_type scenario_response))
   \<and> rs_requestId scenario_response = requestId omitted_request
   \<and> map_option sent
        (run 1 [DebuggerEvent 1 (RequestWillBeSent omitted_request),
                DebuggerEvent 1 (ResponseReceived scenario_response),
                StorageResult scenario_response None None,
                ResponseBodyResult scenario_response None (Some scenario_body),
                PostDataResult omitted_request (JStr ''a=1'')] empty_state) = Some []
   \<and> map_option uncaught
        (run 1 [DebuggerEvent 1 (RequestWillBeSent omitted_request),
                DebuggerEvent 1 (ResponseReceived scenario_response),
                StorageResult scenario_response None None,
                ResponseBodyResult scenario_response None (Some scenario_body),
                PostDataResult omitted_request (JStr ''a=1'')] empty_state) = Some [TypeError]
   \<and> map_option pending
        (run 1 [DebuggerEvent 1 (RequestWillBeSent omitted_request),
                DebuggerEvent 1 (ResponseReceived scenario_response),
                StorageResult scenario_response None None,
                ResponseBodyResult scenario_response None (Some scenario_body),
                PostDataResult omitted_request (JStr ''a=1'')] empty_state) = Some []"
  by (simp add: onNetworkEvent_def important_iff onRequestWillBeSent_def onResponseReceived_def
      storage_get_def storage_get_callback_def complete_def getResponseBody_callback_def
      getRequestPostData_callback_def createEvent_def empty_state_def scenario_response_def
      omitted_request_def scenario_request_def)

subsection \<open>C4: a post body left out of the event\<close>

text \<open>
  C4 says that the request body of the record equals the text returned by the follow-up
  fetch. The debugger delivers the result of a command as an object of its return values
  (the response handler reads \<open>body\<close> and \<open>base64Encoded\<close> from the result of
  \<open>Network.getResponseBody\<close>), and the callback of \<open>Network.getRequestPostData\<close>
  assigns the whole result to \<open>postData\<close>: for the result \<open>{postData: "a=1"}\<close> the
  request body of the record is the JSON text of that object, not \<open>a=1\<close>.
\<close>

theorem C4_result_object_is_stored_whole:
  "hasPostData (request omitted_request) = Some True
   \<and> \<not> truthy (postData (request omitted_request))
   \<and> object_result = JObj [(''postData'', JStr ''a=1'')]
   \<and> map_option (\<lambda>st. map requestBody (sent st))
        (run 1 [DebuggerEvent 1 (RequestWillBeSent omitted_request),
                PostDataResult omitted_request object_result,
                DebuggerEvent 1 (ResponseReceived scenario_response),
                StorageResult scenario_response (Some stored_object_request)
                  (Some stored_object_request),
                ResponseBodyResult scenario_response (Some stored_object_request)
                  (Some scenario_body)] empty_state)
       = Some [''{'' @ [CHR 0x22] @ ''postData'' @ [CHR 0x22] @ '':'' @ [CHR 0x22] @ ''a=1''
                @ [CHR 0x22] @ ''}'']"
  by (simp add: onNetworkEvent_def important_iff onRequestWillBeSent_def onResponseReceived_def
      storage_get_def storage_set_def storage_get_callback_def complete_def
      getResponseBody_callback_def getRequestPostData_callback_def createEvent_def
      collectNetworkEvent_def empty_state_def scenario_response_def omitted_request_def
      scenario_request_def stored_object_request_def object_result_def tryToStringify_def
      JSON_stringify_examples del: JSON_stringify.simps)

subsection \<open>C5: the response body cannot be fetched\<close>

text \<open>
  C5: for every correlation in which \<open>Network.getResponseBody\<close> yields no response
  value, a record is still produced, with the empty string as response body and the
  binary flag false.
\<close>

theorem C5_response_body_fetch_failure_defaults:
  assumes "storage st (rs_requestId p) = Some rq"
  shows "\<exists>st' ev. run tabId [StorageResult p (Some rq) (Some rq), ResponseBodyResult p (Some rq) None]
                    (onResponseReceived tabId p st) = Some st'
                \<and> createEvent None (Some rq) p = Inr ev
                \<and> sent st' = sent st @ [ev]
                \<and> responseBody ev = ''''
                \<and> responseBodyBase64Encoded ev = False"
proof -
  from response_exchange [OF assms, of tabId None] obtain st' where
    "run tabId [StorageResult p (Some rq) (Some rq), ResponseBodyResult p (Some rq) None]
       (onResponseReceived tabId p st) = Some st'"
    "sent st' = sent st @ [projr (createEvent None (Some rq) p)]"
    by auto
  then show ?thesis
    by (intro exI [of _ st'] exI [of _ "projr (createEvent None (Some rq) p)"])
       (simp add: createEvent_def)
qed

theorem C5_response_body_fetch_failure_defaults_witness:
  "storage pending_state (rs_requestId scenario_response) = Some scenario_request
   \<and> (\<exists>st' ev. run 1 [StorageResult scenario_response (Some scenario_request) (Some scenario_request),
                      ResponseBodyResult scenario_response (Some scenario_request) None]
                   (onResponseReceived 1 scenario_response pending_state) = Some st'
          \<and> sent st' = [ev] \<and> responseBody ev = '''' \<and> responseBodyBase64Encoded ev = False)"
proof -
  have a: "storage pending_state (rs_requestId scenario_response) = Some scenario_request"
    by (simp add: pending_state_def empty_state_def scenario_response_def)
  have c: "sent pending_state = []"
    by (simp add: pending_state_def empty_state_def)
  from C5_response_body_fetch_failure_defaults [OF a, of 1] a show ?thesis
    unfolding c by fastforce
qed

subsection \<open>C6: body normalisation\<close>

text \<open>
  C6: \<open>tryToStringify\<close> maps an absent value (undefined, null) to the empty string,
  returns a string unchanged, and maps a structured value (an array, an object) to its
  JSON text, which is never empty (it is bracketed as an array or an object is). It is a
  function of its argument alone and has a result for every value.
\<close>

theorem C6_tryToStringify_cases:
  "tryToStringify JUndefined = '''' \<and> tryToStringify JNull = ''''
   \<and> tryToStringify (JStr s) = s
   \<and> tryToStringify (JArr xs) = JSON_stringify (JArr xs)
   \<and> tryToStringify (JObj kvs) = JSON_stringify (JObj kvs)
   \<and> JSON_stringify (JArr xs) \<noteq> '''' \<and> JSON_stringify (JObj kvs) \<noteq> ''''
   \<and> hd (JSON_stringify (JArr xs)) = CHR ''['' \<and> last (JSON_stringify (JArr xs)) = CHR '']''
   \<and> hd (JSON_stringify (JObj kvs)) = CHR ''{'' \<and> last (JSON_stringify (JObj kvs)) = CHR ''}''"
  by (simp add: tryToStringify_def)

theorem C6_tryToStringify_cases_witness:
  "tryToStringify JUndefined = '''' \<and> tryToStringify JNull = ''''
   \<and> tryToStringify (JStr ''a=1'') = ''a=1''
   \<and> tryToStringify (JArr []) = ''[]''
   \<and> tryToStringify (JObj [(''a'', JNum 1)]) =
        [CHR ''{'', CHR 0x22, CHR ''a'', CHR 0x22, CHR '':'', CHR ''1'', CHR ''}'']"
  using C6_tryToStringify_cases [of "''a=1''" "[]" "[(''a'', JNum 1)]"]
  by (simp add: JSON_stringify_examples del: JSON_stringify.simps(7))

subsection \<open>C7: the resource filter\<close>

text \<open>
  C7, as the listener has it: \<open>importantResourceType\<close> returns \<open>true\<close> exactly for the
  two whitelisted types \<open>XHR\<close> and \<open>Fetch\<close>. For every other non-empty string it
  returns \<open>false\<close>; for an absent type and for the empty string it returns the falsy
  operand itself (\<open>undefined\<close>, the empty string). So its result is truthy exactly for
  the whitelisted types. It acts on no state.
\<close>

theorem C7_importantResourceType_whitelist:
  "(importantResourceType t = JBool True \<longleftrightarrow> t = Some ''XHR'' \<or> t = Some ''Fetch'')
   \<and> (truthy (importantResourceType t) \<longleftrightarrow> t = Some ''XHR'' \<or> t = Some ''Fetch'')
   \<and> (importantResourceType (Some (c # cs)) = JBool (c # cs = ''XHR'' \<or> c # cs = ''Fetch''))
   \<and> importantResourceType None = JUndefined
   \<and> importantResourceType (Some '''') = JStr ''''"
  by (cases t) (auto simp: importantResourceType_def resources_def)

theorem C7_importantResourceType_whitelist_witness:
  "importantResourceType (Some ''XHR'') = JBool True
   \<and> importantResourceType (Some ''Fetch'') = JBool True
   \<and> importantResourceType (Some ''Image'') = JBool False
   \<and> \<not> truthy (importantResourceType None)"
  using C7_importantResourceType_whitelist [of "Some ''XHR''"]
    C7_importantResourceType_whitelist [of "Some ''Fetch''"]
    C7_importantResourceType_whitelist [of None "CHR ''I''" "''mage''"]
  by simp

text \<open>
  C7 as stated fails for an absent type and for the empty string: the result is not
  \<open>false\<close> there.
\<close>

theorem C7_absent_type_is_not_false:
  "importantResourceType None = JUndefined \<and> importantResourceType None \<noteq> JBool False
   \<and> importantResourceType (Some '''') = JStr '''' \<and> importantResourceType (Some '''') \<noteq> JBool False"
  by (simp add: importantResourceType_def)

subsection \<open>C8: removing from the store\<close>

text \<open>
  C8: removing an identifier twice leaves the store as removing it once does, and
  removing an identifier that is absent leaves the store unchanged.
\<close>

theorem C8_storage_remove_idempotent:
  "storage_remove k (storage_remove k m) = storage_remove k m
   \<and> (storage_get k m = None \<longrightarrow> storage_remove k m = m)
   \<and> storage_get k (storage_remove k m) = None"
  by (auto simp: storage_remove_def storage_get_def)

theorem C8_storage_remove_idempotent_witness:
  "storage_get ''8'' (storage pending_state) = None
   \<and> storage_remove ''8'' (storage pending_state) = storage pending_state
   \<and> storage_remove ''7'' (storage_remove ''7'' (storage pending_state))
       = storage_remove ''7'' (storage pending_state)
   \<and> storage_get ''7'' (storage_remove ''7'' (storage pending_state)) = None"
proof -
  have a: "storage_get ''8'' (storage pending_state) = None"
    by (simp add: storage_get_def pending_state_def empty_state_def)
  show ?thesis
    using C8_storage_remove_idempotent [of "''8''" "storage pending_state"]
      C8_storage_remove_idempotent [of "''7''" "storage pending_state"] a
    by simp
qed

subsection \<open>C9: the success flag\<close>

text \<open>
  C9, as the listener has it: whatever HTTP status the request to the collector completes
  with, the listener behaves the same. The flag it passes to the callback is computed
  from the free identifier \<open>status\<close>, not from the status of the request: it is
  \<open>true\<close> exactly when the value of that identifier converts to a number from 200 up
  to, and not including, 400. Where the identifier is the page's \<open>window.status\<close> left
  empty, which converts to 0, the flag is \<open>false\<close>; where the identifier has no
  binding the evaluation throws and the callback is not called.
\<close>

theorem C9_success_flag_ignores_xhr_status:
  "step tabId (ReadyStateChange ev i (x\<lparr>xhr_status := s\<rparr>) g) st
     = step tabId (ReadyStateChange ev i x g) st
   \<and> readystatechange ev i (x\<lparr>xhr_status := s\<rparr>) g st = readystatechange ev i x g st
   \<and> (readyState x = 4 \<longrightarrow>
        readystatechange ev i x (Some n) st =
          collectNetworkEvent_callback ev i (js_ge n (Fin 200) \<and> js_lt n (Fin 400)) st)
   \<and> (js_ge (Fin q) (Fin 200) \<and> js_lt (Fin q) (Fin 400)) = (200 \<le> q \<and> q < 400)
   \<and> (readyState x = 4 \<longrightarrow>
        readystatechange ev i x (Some (Fin 0)) st = collectNetworkEvent_callback ev i False st)
   \<and> (readyState x = 4 \<longrightarrow>
        readystatechange ev i x None st = st\<lparr>uncaught := uncaught st @ [ReferenceError]\<rparr>)"
  by (auto simp: readystatechange_def js_ge_def)

theorem C9_success_flag_ignores_xhr_status_witness:
  "readyState (done_xhr 200) = 4 \<and> done_xhr 200\<lparr>xhr_status := 500\<rparr> = done_xhr 500
   \<and> step 1 (ReadyStateChange scenario_event ''7'' (done_xhr 500) (Some (Fin 0))) posted_state
       = step 1 (ReadyStateChange scenario_event ''7'' (done_xhr 200) (Some (Fin 0))) posted_state
   \<and> logged (readystatechange scenario_event ''7'' (done_xhr 200) (Some (Fin 0)) posted_state)
       = [(scenario_event, False)]
   \<and> logged (readystatechange scenario_event ''7'' (done_xhr 200) None posted_state) = []
   \<and> uncaught (readystatechange scenario_event ''7'' (done_xhr 200) None posted_state)
       = [ReferenceError]"
proof -
  have a: "readyState (done_xhr 200) = 4" "done_xhr 200\<lparr>xhr_status := 500\<rparr> = done_xhr 500"
    "logged posted_state = []" "uncaught posted_state = []"
    by (simp_all add: done_xhr_def posted_state_def pending_state_def empty_state_def)
  show ?thesis
    using C9_success_flag_ignores_xhr_status [where tabId = 1 and ev = scenario_event
        and i = "''7''" and x = "done_xhr 200" and s = 500 and g = "Some (Fin 0)"
        and st = posted_state and n = "Fin 0" and q = 0] a
    by (simp add: collectNetworkEvent_callback_def)
qed

text \<open>
  C9 as stated fails in its last part: where \<open>status\<close> converts to 250 the callback is
  given \<open>true\<close>, here while the collector answers 500.
\<close>

theorem C9_flag_true_for_status_250:
  "xhr_status (done_xhr 500) = 500
   \<and> logged (readystatechange scenario_event ''7'' (done_xhr 500) (Some (Fin 250)) posted_state)
       = [(scenario_event, True)]
   \<and> map_option logged
        (step 1 (ReadyStateChange scenario_event ''7'' (done_xhr 500) (Some (Fin 250))) posted_state)
       = Some [(scenario_event, True)]"
  by (simp add: readystatechange_def collectNetworkEvent_callback_def complete_def done_xhr_def
      posted_state_def pending_state_def empty_state_def js_ge_def)

subsection \<open>C10: the filter on response events\<close>

text \<open>
  C10: the resource filter gates response-received events as it gates request-sent
  events. An event whose \<open>params.type\<close> is absent or not whitelisted is ignored before
  any handler runs, also when the store holds a pending request for its identifier: the
  state is left as it was, so no record is produced and no entry is removed.
\<close>

theorem C10_filter_applies_to_responses:
  assumes "params_type msg = None \<or> (\<exists>s. params_type msg = Some s \<and> s \<notin> set resources)"
  shows "onNetworkEvent tabId debuggeeTabId msg st = st
         \<and> step tabId (DebuggerEvent debuggeeTabId msg) st = Some st"
  using assms by (auto simp: onNetworkEvent_def important_iff resources_def)

theorem C10_filter_applies_to_responses_witness:
  "(\<exists>s. params_type (ResponseReceived image_response) = Some s \<and> s \<notin> set resources)
   \<and> storage pending_state (rs_requestId image_response) = Some scenario_request
   \<and> onNetworkEvent 1 1 (ResponseReceived image_response) pending_state = pending_state
   \<and> sent (onNetworkEvent 1 1 (ResponseReceived image_response) pending_state) = []
   \<and> pending (onNetworkEvent 1 1 (ResponseReceived image_response) pending_state) = []
   \<and> storage (onNetworkEvent 1 1 (ResponseReceived image_response) pending_state) ''7''
       = Some scenario_request"
proof -
  have a: "\<exists>s. params_type (ResponseReceived image_response) = Some s \<and> s \<notin> set resources"
    by (simp add: image_response_def resources_def)
  have b: "storage pending_state (rs_requestId image_response) = Some scenario_request"
    "sent pending_state = []" "storage pending_state ''7'' = Some scenario_request"
    "pending pending_state = []"
    by (simp_all add: pending_state_def empty_state_def image_response_def scenario_response_def)
  show ?thesis
    using C10_filter_applies_to_responses [OF disjI2, OF a, of 1 1 pending_state] a b
    by simp
qed

end
